theory Spec2Isabelle
  imports Complex_Main "HOL-Library.Word" "HOL-Library.Char_ord" "HOL-Library.List_Lexorder"
begin

section \<open>The water intake dashboard (src/dashboard.py)\<close>

text \<open>
  The dashboard is one Streamlit script. It reads intake rows from the event store, turns
  them into a pandas frame, and renders totals, a seven day chart, the recent intakes and two
  pattern charts. The store functions (\<open>log_intake\<close>, \<open>get_intake\<close>, \<open>get_daily_summary\<close>
  of \<open>src.database\<close>) and the feedback agent (\<open>src.agent\<close>) are imported by the script and
  are not part of it: the script's code is modelled over them as parameters.

  Exceptions are values of the type \<open>error\<close>; a call that may raise returns \<open>error + 'a\<close>.
  The store is an explicit state of an arbitrary type \<open>'s\<close> that every store call takes and
  returns. What the script draws is a list of widgets, in the order of the calls that draw
  them. Console output (the \<open>print\<close> calls and \<open>debug_database_state\<close>, which only reads
  and prints, inside its own \<open>try\<close>) is not modelled.
\<close>

subsection \<open>Data\<close>

text \<open>
  A calendar day is the proleptic Gregorian ordinal of the date (1 is 0001-01-01, a Monday),
  the number Python's \<open>date.toordinal()\<close> gives. The text \<open>strftime('%Y-%m-%d')\<close>
  produces is a one-to-one rendering of the day and the script only compares such texts for
  equality, so the day stands for its rendering.
\<close>

type_synonym day = int

text \<open>
  A parsed timestamp, as far as the script reads it: the calendar day, and the hour and minute,
  which \<open>strftime('%H:%M')\<close> renders.
\<close>

record stamp =
  day :: day
  hour :: nat
  minute :: nat

text \<open>
  A row of the table \<open>water_intake\<close>, with the column names the script gives the frame.
  \<open>intake_ml\<close> is an SQLite INTEGER, a signed 64-bit number, and pandas makes the column
  \<open>int64\<close>: \<open>sint\<close> reads the number, and sums over the column wrap around.
\<close>

record row =
  rid :: int
  user_id :: string
  intake_ml :: "64 word"
  date :: string
  timestamp :: string

text \<open>
  A row of \<open>history_df\<close> after lines 175 to 177: the stored columns, the \<open>date\<close> column
  parsed (\<open>date_dt\<close>), and the column \<open>time\<close>, the hour and minute of the parsed timestamp.
  A cell that pandas reads as missing is \<open>NaT\<close> in the parsed column and NaN in a column
  rendered from it: \<open>None\<close> in both.
\<close>

record frame_row = row +
  date_dt :: "stamp option"
  time :: "(nat \<times> nat) option"

datatype error =
  PersistenceError | InvalidArgument | ValueError | AgentError | StreamlitAPIException

text \<open>What \<open>pd.to_datetime\<close> makes of one cell of a column.\<close>

datatype cell = Unparsable | NaT | Timestamp stamp

text \<open>
  The collaborators of the script. \<open>to_datetime\<close> is pandas' parser: it reads a column as a
  whole (the format it expects of a cell may depend on the other cells), so it is given the
  column and the cell. \<open>new_agent\<close> is the outcome of constructing \<open>WaterIntakeAgent()\<close>, an
  agent being its method \<open>analyze_intake\<close>.
\<close>

record 's env =
  to_datetime :: "string list \<Rightarrow> string \<Rightarrow> cell"
  get_intake :: "string \<Rightarrow> 's \<Rightarrow> (error + row list) \<times> 's"
  log_intake :: "string \<Rightarrow> int \<Rightarrow> 's \<Rightarrow> (error + bool) \<times> 's"
  get_daily_summary :: "string \<Rightarrow> int \<Rightarrow> 's \<Rightarrow> (error + (string \<times> int \<times> nat) list) \<times> 's"
  new_agent :: "error + (int \<Rightarrow> error + string)"

datatype widget =
    InitError error
  | Success
  | AIFeedback int string
  | FeedbackError error
  | Balloons
  | LogFailed
  | FormError error
  | TodaysIntake int
  | Remaining int
  | DailyGoal rat
  | ProgressBar rat
  | WeeklyChart "(stamp option \<times> int) list"
  | RecentIntakes "((nat \<times> nat) option \<times> int) list"
  | NoHistory
  | LoadError error

record page =
  sidebar :: "widget list"
  body :: "widget list"

subsection \<open>pandas and numpy operations the script uses\<close>

text \<open>
  \<open>pd.to_datetime\<close> of a column: it raises when a cell cannot be parsed, and otherwise
  gives a column of the same length, with \<open>NaT\<close> for a missing cell.
\<close>

definition to_datetime_col ::
  "(string list \<Rightarrow> string \<Rightarrow> cell) \<Rightarrow> string list \<Rightarrow> error + stamp option list" where
  "to_datetime_col parse cells =
     (if list_ex (\<lambda>c. parse cells c = Unparsable) cells then Inl ValueError
      else Inr (map (\<lambda>c. case parse cells c of Timestamp t \<Rightarrow> Some t | _ \<Rightarrow> None) cells))"

text \<open>The value of a 64-bit signed computation whose exact result is \<open>x\<close>.\<close>

definition int64 :: "int \<Rightarrow> int" where
  "int64 x = sint (word_of_int x :: 64 word)"

text \<open>
  \<open>Series.mean()\<close> of an integer column: the sum over the count. pandas computes it in
  64-bit floating point (the sum too, so it does not wrap); the model keeps the exact
  quotient. It is only taken of a group that has a row.
\<close>

definition mean :: "int list \<Rightarrow> rat" where
  "mean xs = of_int (sum_list xs) / of_nat (length xs)"

text \<open>
  \<open>df.groupby(key)[val].mean()\<close>: one entry for each key that occurs, in ascending key
  order, holding the mean of the rows with that key. Rows whose key is missing are dropped.
\<close>

definition groupby_mean ::
  "('r \<Rightarrow> 'k::linorder option) \<Rightarrow> ('r \<Rightarrow> int) \<Rightarrow> 'r list \<Rightarrow> ('k \<times> rat) list" where
  "groupby_mean key val df =
     map (\<lambda>k. (k, mean (map val (filter (\<lambda>r. key r = Some k) df))))
       (sort (remdups (List.map_filter key df)))"

text \<open>\<open>Series.reindex(labels)\<close>: one slot for each label, NaN (\<open>None\<close>) where the series has none.\<close>

definition reindex :: "'k list \<Rightarrow> ('k \<times> rat) list \<Rightarrow> ('k \<times> rat option) list" where
  "reindex labels series = map (\<lambda>k. (k, map_of series k)) labels"

text \<open>\<open>df.tail(n)\<close>: the last \<open>n\<close> rows, in the frame's order; all of them when there are fewer.\<close>

definition tail :: "nat \<Rightarrow> 'a list \<Rightarrow> 'a list" where
  "tail n df = drop (length df - n) df"

definition day_names :: "string list" where
  "day_names = [''Monday'', ''Tuesday'', ''Wednesday'', ''Thursday'', ''Friday'', ''Saturday'', ''Sunday'']"

text \<open>\<open>dt.day_name()\<close>: the ordinal 1 is a Monday.\<close>

definition day_name :: "day \<Rightarrow> string" where
  "day_name d = day_names ! nat ((d + 6) mod 7)"

subsection \<open>get\_agent (lines 44 to 52)\<close>

text \<open>
  When the constructor raises, the script shows the error and calls \<open>st.stop()\<close>, which ends
  the run: \<open>Inl\<close> is the stopped run with what it has drawn.
\<close>

definition get_agent :: "'s env \<Rightarrow> widget list + (int \<Rightarrow> error + string)" where
  "get_agent env = (case new_agent env of Inl e \<Rightarrow> Inl [InitError e] | Inr agent \<Rightarrow> Inr agent)"

subsection \<open>get\_todays\_total (lines 85 to 113)\<close>

text \<open>
  A row whose date is \<open>NaT\<close> has no \<open>date_str\<close> and is not one of today. The sum of line 107
  is the sum of an \<open>int64\<close> column.
\<close>

definition get_todays_total :: "'s env \<Rightarrow> day \<Rightarrow> string \<Rightarrow> 's \<Rightarrow> int \<times> 's" where
  "get_todays_total env today_str user s =
     (case get_intake env user s of
        (Inl e, s') \<Rightarrow> (0, s')
      | (Inr history, s') \<Rightarrow>
          if history = [] then (0, s')
          else (case to_datetime_col (to_datetime env) (map date history) of
                  Inl e \<Rightarrow> (0, s')
                | Inr dates \<Rightarrow>
                    (sint (sum_list (map (intake_ml \<circ> fst)
                        (filter (\<lambda>(r, d). map_option day d = Some today_str)
                           (zip history dates)))), s')))"

subsection \<open>The intake form (lines 125 to 158)\<close>

definition intake_form ::
  "'s env \<Rightarrow> (int \<Rightarrow> error + string) \<Rightarrow> day \<Rightarrow> string \<Rightarrow> int \<Rightarrow> 's \<Rightarrow> widget list \<times> 's" where
  "intake_form env agent today_str user ml s =
     (case log_intake env user ml s of
        (Inl e, s1) \<Rightarrow> ([FormError e], s1)
      | (Inr success, s1) \<Rightarrow>
          if success then
            (case get_todays_total env today_str user s1 of
               (today_total, s2) \<Rightarrow>
                 (case agent today_total of
                    Inl e \<Rightarrow> ([Success, FeedbackError e, Balloons], s2)
                  | Inr feedback \<Rightarrow> ([Success, AIFeedback today_total feedback, Balloons], s2)))
          else ([LogFailed], s1))"

subsection \<open>The main content (lines 169 to 228 and 301 to 306)\<close>

definition history_df :: "'s env \<Rightarrow> row list \<Rightarrow> error + frame_row list" where
  "history_df env history =
     (case to_datetime_col (to_datetime env) (map date history) of
        Inl e \<Rightarrow> Inl e
      | Inr dates \<Rightarrow>
          (case to_datetime_col (to_datetime env) (map timestamp history) of
             Inl e \<Rightarrow> Inl e
           | Inr stamps \<Rightarrow>
               Inr (map (\<lambda>(r, d, t).
                           row.extend r
                             (frame_row.fields d (map_option (\<lambda>t. (hour t, minute t)) t)))
                      (zip history (zip dates stamps)))))"

definition today_df :: "day \<Rightarrow> frame_row list \<Rightarrow> frame_row list" where
  "today_df today_str df = filter (\<lambda>r. map_option day (date_dt r) = Some today_str) df"

text \<open>Line 182: the sum of an \<open>int64\<close> column, read as a number.\<close>

definition today_total :: "day \<Rightarrow> frame_row list \<Rightarrow> int" where
  "today_total today_str df = sint (sum_list (map intake_ml (today_df today_str df)))"

definition daily_goal :: int where
  "daily_goal = 2000"

text \<open>
  Line 192. The total is a numpy \<open>int64\<close>, so the difference is computed in 64 bits and
  wraps around where the exact difference does not fit.
\<close>

definition remaining :: "int \<Rightarrow> int" where
  "remaining total_ml = max 0 (int64 (daily_goal - total_ml))"

text \<open>Line 196 divides in floating point; the model keeps the exact quotient.\<close>

definition progress :: "int \<Rightarrow> rat" where
  "progress total_ml = min 1 (of_int total_ml / of_int daily_goal)"

definition recent_intakes :: "frame_row list \<Rightarrow> ((nat \<times> nat) option \<times> int) list" where
  "recent_intakes df = tail 5 (map (\<lambda>r. (time r, sint (intake_ml r))) df)"

text \<open>
  The metrics and the Overview tab: what the main area draws up to line 228, and the branches
  that end it (no history, and the \<open>except\<close> of line 304). \<open>st.progress\<close> (line 199) raises
  for a value outside 0 to 1, which here is a negative progress: the three metrics are drawn
  by then, and the \<open>except\<close> shows the error. Titles, subheaders and the tab containers
  carry no data and are left out. The History and Trends tabs are drawn after the widgets of
  this list; the two pattern series of the Trends tab are \<open>weekly_pattern\<close> and
  \<open>hourly_pattern\<close> below.
\<close>

definition main_content :: "'s env \<Rightarrow> day \<Rightarrow> string \<Rightarrow> 's \<Rightarrow> widget list \<times> 's" where
  "main_content env today_str user s =
     (case get_intake env user s of
        (Inl e, s1) \<Rightarrow> ([LoadError e], s1)
      | (Inr history, s1) \<Rightarrow>
          if history = [] then ([NoHistory], s1)
          else (case history_df env history of
                  Inl e \<Rightarrow> ([LoadError e], s1)
                | Inr df \<Rightarrow>
                    (let total_ml = today_total today_str df;
                         metrics = [TodaysIntake total_ml, Remaining (remaining total_ml),
                                    DailyGoal (progress total_ml)]
                     in if progress total_ml < 0
                        then (metrics @ [LoadError StreamlitAPIException], s1)
                        else
                          (case get_daily_summary env user 7 s1 of
                             (Inl e, s2) \<Rightarrow>
                               (metrics @ [ProgressBar (progress total_ml), LoadError e], s2)
                           | (Inr weekly_summary, s2) \<Rightarrow>
                               (case to_datetime_col (to_datetime env) (map fst weekly_summary) of
                                  Inl e \<Rightarrow>
                                    (metrics @ [ProgressBar (progress total_ml), LoadError e], s2)
                                | Inr dates \<Rightarrow>
                                    (metrics @
                                     [ProgressBar (progress total_ml),
                                      WeeklyChart (zip dates (map (fst \<circ> snd) weekly_summary)),
                                      RecentIntakes (recent_intakes df)], s2))))))"

subsection \<open>The pattern series of the Trends tab (lines 277 to 292)\<close>

text \<open>A row whose date is \<open>NaT\<close> has no day name, and the grouping drops it.\<close>

definition weekly_pattern :: "frame_row list \<Rightarrow> (string \<times> rat option) list" where
  "weekly_pattern df =
     reindex day_names
       (groupby_mean (\<lambda>r. map_option (\<lambda>d. day_name (day d)) (date_dt r))
          (\<lambda>r. sint (intake_ml r)) df)"

text \<open>
  The column \<open>hour\<close> is the hour of the text in \<open>time\<close>, which is the hour of the stored
  timestamp; it is missing where \<open>time\<close> is.
\<close>

definition hourly_pattern :: "frame_row list \<Rightarrow> (nat \<times> rat) list" where
  "hourly_pattern df = groupby_mean (\<lambda>r. map_option fst (time r)) (\<lambda>r. sint (intake_ml r)) df"

subsection \<open>One run of the script\<close>

definition dashboard :: "'s env \<Rightarrow> day \<Rightarrow> string \<Rightarrow> int \<Rightarrow> bool \<Rightarrow> 's \<Rightarrow> page \<times> 's" where
  "dashboard env today_str user ml submitted s =
     (case get_agent env of
        Inl shown \<Rightarrow> (\<lparr>sidebar = [], body = shown\<rparr>, s)
      | Inr agent \<Rightarrow>
          (case (if submitted then intake_form env agent today_str user ml s else ([], s)) of
             (side, s1) \<Rightarrow>
               (case main_content env today_str user s1 of
                  (main, s2) \<Rightarrow> (\<lparr>sidebar = side, body = main\<rparr>, s2))))"

section \<open>The aggregation core of the specification\<close>

text \<open>
  Modelled from the spec: the event of section 3 of the specification. \<open>instant\<close> is the
  field the specification calls \<open>timestamp\<close>, \<open>eventId\<close> the one it calls \<open>id\<close>.
\<close>

record event =
  eventId :: nat
  userId :: string
  amountMl :: int
  calendarDate :: day
  instant :: stamp

text \<open>
  Modelled from the spec: \<open>DailyTotal\<close> of section 3; \<open>on_date\<close> is the field the
  specification calls \<open>date\<close>.
\<close>

record DailyTotal =
  on_date :: day
  totalMl :: int
  entryCount :: nat

text \<open>
  Modelled from the spec: the daily total computation of section 4.2, the unit of the summary
  builder. It is also the specification's side of the comparison with the dashboard's own
  daily total (\<open>get_todays_total\<close>, \<open>today_df\<close>, \<open>today_total\<close>).
\<close>

definition daily_total :: "event list \<Rightarrow> day \<Rightarrow> DailyTotal" where
  "daily_total events d =
     \<lparr>on_date = d,
      totalMl = sum_list (map amountMl (filter (\<lambda>e. calendarDate e = d) events)),
      entryCount = length (filter (\<lambda>e. calendarDate e = d) events)\<rparr>"

text \<open>
  Modelled from the spec: the \<open>windowDays\<close> calendar dates ending at and including today,
  oldest first (section 4.3).
\<close>

definition window_dates :: "day \<Rightarrow> nat \<Rightarrow> day list" where
  "window_dates today n = map (\<lambda>i. today - int (n - 1 - i)) [0..<n]"

text \<open>
  Modelled from the spec: the trailing window summary builder of section 4.3, which the
  dashboard imports as \<open>get_daily_summary\<close> from src/database.py; that file is missing from
  the sources. \<open>listAll\<close> is the store's query of section 2. A store failure is passed on
  as it is (section 7).
\<close>

definition trailing_window_summary ::
  "(string \<Rightarrow> 's \<Rightarrow> (error + event list) \<times> 's) \<Rightarrow> day \<Rightarrow> string \<Rightarrow> int \<Rightarrow> 's
     \<Rightarrow> (error + DailyTotal list) \<times> 's" where
  "trailing_window_summary listAll today user windowDays s =
     (if windowDays \<le> 0 then (Inl InvalidArgument, s)
      else (case listAll user s of
              (Inl e, s') \<Rightarrow> (Inl e, s')
            | (Inr events, s') \<Rightarrow>
                (Inr (map (daily_total events) (window_dates today (nat windowDays))), s')))"

section \<open>Auxiliary definitions for the statements\<close>

text \<open>
  What pandas reads in the stored \<open>date\<close> and \<open>timestamp\<close> cell of a row, as a cell of the
  history's column.
\<close>

definition stored_date :: "'s env \<Rightarrow> row list \<Rightarrow> row \<Rightarrow> stamp option" where
  "stored_date env history r =
     (case to_datetime env (map date history) (date r) of Timestamp t \<Rightarrow> Some t | _ \<Rightarrow> None)"

definition stored_timestamp :: "'s env \<Rightarrow> row list \<Rightarrow> row \<Rightarrow> stamp option" where
  "stored_timestamp env history r =
     (case to_datetime env (map timestamp history) (timestamp r) of
        Timestamp t \<Rightarrow> Some t | _ \<Rightarrow> None)"

text \<open>The row of \<open>history_df\<close> that a stored row becomes when the two columns parse.\<close>

definition frame_of :: "'s env \<Rightarrow> row list \<Rightarrow> row \<Rightarrow> frame_row" where
  "frame_of env history r =
     row.extend r (frame_row.fields (stored_date env history r)
       (map_option (\<lambda>t. (hour t, minute t)) (stored_timestamp env history r)))"

text \<open>The frame's keys and cells in terms of the stored cells.\<close>

definition stored_day :: "'s env \<Rightarrow> row list \<Rightarrow> row \<Rightarrow> day option" where
  "stored_day env history r = map_option day (stored_date env history r)"

definition stored_day_name :: "'s env \<Rightarrow> row list \<Rightarrow> row \<Rightarrow> string option" where
  "stored_day_name env history r = map_option (\<lambda>d. day_name (day d)) (stored_date env history r)"

definition stored_hour :: "'s env \<Rightarrow> row list \<Rightarrow> row \<Rightarrow> nat option" where
  "stored_hour env history r = map_option hour (stored_timestamp env history r)"

definition stored_time :: "'s env \<Rightarrow> row list \<Rightarrow> row \<Rightarrow> (nat \<times> nat) option" where
  "stored_time env history r =
     map_option (\<lambda>t. (hour t, minute t)) (stored_timestamp env history r)"

definition amount :: "row \<Rightarrow> int" where
  "amount r = sint (intake_ml r)"

text \<open>
  A stored row and an event of the specification that stand for each other: the same amount,
  and the event's calendar date is the day pandas reads in the row's stored date.
\<close>

definition row_is_event :: "'s env \<Rightarrow> row list \<Rightarrow> row \<Rightarrow> event \<Rightarrow> bool" where
  "row_is_event env history r e \<longleftrightarrow>
     stored_day env history r = Some (calendarDate e) \<and> amount r = amountMl e"

section \<open>A small store for the examples\<close>

text \<open>
  A store that holds a table and may be unreachable, and an agent that answers or fails. The
  parser reads the cells of the examples (2024-05-06 is a Monday, ordinal 739012) the way
  pandas 2 does: an empty cell is missing, the first cell that is not empty sets the format of
  the column (a date of 10 characters, or a date and time of 19), and a cell of another
  format cannot be parsed.
\<close>

record store =
  table :: "row list"
  reachable :: bool

definition ex_stamps :: "(string \<times> stamp) list" where
  "ex_stamps =
     [(''2024-05-05'', \<lparr>day = 739011, hour = 0, minute = 0\<rparr>),
      (''2024-05-06'', \<lparr>day = 739012, hour = 0, minute = 0\<rparr>),
      (''2024-05-05 09:30:00'', \<lparr>day = 739011, hour = 9, minute = 30\<rparr>),
      (''2024-05-06 08:00:00'', \<lparr>day = 739012, hour = 8, minute = 0\<rparr>),
      (''2024-05-06 20:00:00'', \<lparr>day = 739012, hour = 20, minute = 0\<rparr>)]"

definition ex_to_datetime :: "string list \<Rightarrow> string \<Rightarrow> cell" where
  "ex_to_datetime cells c =
     (if c = [] then NaT
      else (case filter (\<lambda>x. x \<noteq> []) cells of
              [] \<Rightarrow> Unparsable
            | first # _ \<Rightarrow>
                if length c \<noteq> length first then Unparsable
                else (case map_of ex_stamps c of None \<Rightarrow> Unparsable | Some t \<Rightarrow> Timestamp t)))"

definition ex_get_intake :: "string \<Rightarrow> store \<Rightarrow> (error + row list) \<times> store" where
  "ex_get_intake user s =
     (if reachable s then (Inr (filter (\<lambda>r. user_id r = user) (table s)), s)
      else (Inl PersistenceError, s))"

definition ex_log_intake :: "string \<Rightarrow> int \<Rightarrow> store \<Rightarrow> (error + bool) \<times> store" where
  "ex_log_intake user ml s =
     (if reachable s
      then (Inr True, s\<lparr>table := table s @
              [\<lparr>rid = int (length (table s)) + 1, user_id = user, intake_ml = word_of_int ml,
                date = ''2024-05-06'', timestamp = ''2024-05-06 20:00:00''\<rparr>]\<rparr>)
      else (Inl PersistenceError, s))"

definition ex_get_daily_summary ::
  "string \<Rightarrow> int \<Rightarrow> store \<Rightarrow> (error + (string \<times> int \<times> nat) list) \<times> store" where
  "ex_get_daily_summary user days s =
     (if reachable s then (Inr [(''2024-05-05'', 300, 1), (''2024-05-06'', 1200, 2)], s)
      else (Inl PersistenceError, s))"

definition ex_agent :: "int \<Rightarrow> error + string" where
  "ex_agent total_ml = (if total_ml < 2000 then Inr ''Drink more water.'' else Inr ''Well done.'')"

definition ex_env :: "store env" where
  "ex_env = \<lparr>to_datetime = ex_to_datetime, get_intake = ex_get_intake,
             log_intake = ex_log_intake, get_daily_summary = ex_get_daily_summary,
             new_agent = Inr ex_agent\<rparr>"

definition ex_row :: "int \<Rightarrow> 64 word \<Rightarrow> string \<Rightarrow> string \<Rightarrow> row" where
  "ex_row i ml d t = \<lparr>rid = i, user_id = ''user123'', intake_ml = ml, date = d, timestamp = t\<rparr>"

text \<open>500 ml at 08:00 and 700 ml at 20:00 on 2024-05-06.\<close>

definition ex_history :: "row list" where
  "ex_history = [ex_row 1 500 ''2024-05-06'' ''2024-05-06 08:00:00'',
                 ex_row 2 700 ''2024-05-06'' ''2024-05-06 20:00:00'']"

definition ex_store :: store where
  "ex_store = \<lparr>table = ex_history, reachable = True\<rparr>"

text \<open>The table after 300 ml more are logged: \<open>ex_log_intake\<close> stamps them 2024-05-06, 20:00.\<close>

definition ex_logged :: "row list" where
  "ex_logged = ex_history @ [ex_row 3 300 ''2024-05-06'' ''2024-05-06 20:00:00'']"

text \<open>
  A table whose first row is the latest one: 700 ml on 2024-05-06 at 20:00, stored before five
  rows of 2024-05-05 at 09:30.
\<close>

definition ex_latest :: row where
  "ex_latest = ex_row 1 700 ''2024-05-06'' ''2024-05-06 20:00:00''"

definition ex_older :: "row list" where
  "ex_older = [ex_row 2 100 ''2024-05-05'' ''2024-05-05 09:30:00'',
               ex_row 3 200 ''2024-05-05'' ''2024-05-05 09:30:00'',
               ex_row 4 300 ''2024-05-05'' ''2024-05-05 09:30:00'',
               ex_row 5 400 ''2024-05-05'' ''2024-05-05 09:30:00'',
               ex_row 6 500 ''2024-05-05'' ''2024-05-05 09:30:00'']"

definition ex_unordered :: "row list" where
  "ex_unordered = ex_latest # ex_older"

definition ex_unordered_store :: store where
  "ex_unordered_store = \<lparr>table = ex_unordered, reachable = True\<rparr>"

text \<open>Two rows of 2 to the 62 ml on 2024-05-06: their exact sum does not fit 64 bits.\<close>

definition ex_huge :: "row list" where
  "ex_huge = [ex_row 1 (2 ^ 62) ''2024-05-06'' ''2024-05-06 08:00:00'',
              ex_row 2 (2 ^ 62) ''2024-05-06'' ''2024-05-06 20:00:00'']"

definition ex_huge_store :: store where
  "ex_huge_store = \<lparr>table = ex_huge, reachable = True\<rparr>"

text \<open>
  The two rows of 2024-05-06, the second with a date cell that carries the time as well: each
  cell alone is a date pandas reads, the column is not.
\<close>

definition ex_mixed :: "row list" where
  "ex_mixed = [ex_row 1 500 ''2024-05-06'' ''2024-05-06 08:00:00'',
               ex_row 2 700 ''2024-05-06 20:00:00'' ''2024-05-06 20:00:00'']"

definition ex_mixed_store :: store where
  "ex_mixed_store = \<lparr>table = ex_mixed, reachable = True\<rparr>"

text \<open>The events of the specification that stand for the rows of \<open>ex_history\<close>.\<close>

definition ex_history_events :: "event list" where
  "ex_history_events =
     [\<lparr>eventId = 1, userId = ''user123'', amountMl = 500, calendarDate = 739012,
        instant = \<lparr>day = 739012, hour = 8, minute = 0\<rparr>\<rparr>,
      \<lparr>eventId = 2, userId = ''user123'', amountMl = 700, calendarDate = 739012,
        instant = \<lparr>day = 739012, hour = 20, minute = 0\<rparr>\<rparr>]"

text \<open>An agent whose analysis raises, and a store that cannot be reached.\<close>

definition ex_failing_agent :: "int \<Rightarrow> error + string" where
  "ex_failing_agent total_ml = Inl AgentError"

definition ex_offline :: store where
  "ex_offline = \<lparr>table = ex_history, reachable = False\<rparr>"

text \<open>Events of the aggregation core: the two of 2024-05-06 and one of 2024-05-03.\<close>

definition ex_events :: "event list" where
  "ex_events =
     [\<lparr>eventId = 1, userId = ''user123'', amountMl = 250, calendarDate = 739009,
        instant = \<lparr>day = 739009, hour = 7, minute = 15\<rparr>\<rparr>,
      \<lparr>eventId = 2, userId = ''user123'', amountMl = 500, calendarDate = 739012,
        instant = \<lparr>day = 739012, hour = 8, minute = 0\<rparr>\<rparr>,
      \<lparr>eventId = 3, userId = ''user123'', amountMl = 700, calendarDate = 739012,
        instant = \<lparr>day = 739012, hour = 20, minute = 0\<rparr>\<rparr>]"

definition ex_listAll :: "string \<Rightarrow> event list \<Rightarrow> (error + event list) \<times> event list" where
  "ex_listAll user s = (Inr (filter (\<lambda>e. userId e = user) s), s)"

section \<open>Facts about the pandas operations\<close>

lemma int64_id: "- (2 ^ 63) \<le> x \<Longrightarrow> x < 2 ^ 63 \<Longrightarrow> int64 x = x"
  by (simp add: int64_def sint_sbintrunc' signed_take_bit_int_eq_self)

lemma sum_list_word_of_int:
  "(sum_list ws :: 64 word) = word_of_int (sum_list (map sint ws))"
  by (induction ws) simp_all

lemma sint_sum_list: "sint (sum_list ws :: 64 word) = int64 (sum_list (map sint ws))"
  unfolding int64_def by (subst sum_list_word_of_int) (rule refl)

lemma to_datetime_col_cases:
  assumes "to_datetime_col parse cells = Inr ds"
  shows "ds = map (\<lambda>c. case parse cells c of Timestamp t \<Rightarrow> Some t | _ \<Rightarrow> None) cells"
  using assms by (simp add: to_datetime_col_def split: if_splits)

lemma to_datetime_col_error:
  "to_datetime_col parse cells = Inl e \<Longrightarrow> e = ValueError"
  by (simp add: to_datetime_col_def split: if_splits)

lemma filter_zip_map:
  "map (h \<circ> fst) (filter (\<lambda>(r, d). P d) (zip xs (map g xs))) = map h (filter (\<lambda>r. P (g r)) xs)"
  by (induction xs) auto

lemma zip3_map:
  "map (\<lambda>(r, d, t). F r d t) (zip xs (zip (map g xs) (map k xs))) = map (\<lambda>r. F r (g r) (k r)) xs"
  by (induction xs) auto

lemma date_col:
  assumes "to_datetime_col (to_datetime env) (map date history) = Inr dates"
  shows "dates = map (stored_date env history) history"
  using to_datetime_col_cases [OF assms] by (simp add: stored_date_def [abs_def] comp_def)

lemma timestamp_col:
  assumes "to_datetime_col (to_datetime env) (map timestamp history) = Inr stamps"
  shows "stamps = map (stored_timestamp env history) history"
  using to_datetime_col_cases [OF assms] by (simp add: stored_timestamp_def [abs_def] comp_def)

lemma history_df_Inr:
  assumes "history_df env history = Inr df"
  shows "df = map (frame_of env history) history"
proof -
  from assms obtain ds ts where
    d: "to_datetime_col (to_datetime env) (map date history) = Inr ds" and
    t: "to_datetime_col (to_datetime env) (map timestamp history) = Inr ts"
    by (auto simp: history_df_def split: sum.splits)
  from assms d t show ?thesis
    unfolding history_df_def date_col [OF d] timestamp_col [OF t]
    by (simp add: zip3_map frame_of_def [abs_def])
qed

lemma history_df_date_col:
  assumes "history_df env history = Inr df"
  shows "\<exists>dates. to_datetime_col (to_datetime env) (map date history) = Inr dates"
  using assms by (auto simp: history_df_def split: sum.splits)

lemma frame_of_sel [simp]:
  "intake_ml (frame_of env history r) = intake_ml r"
  "date_dt (frame_of env history r) = stored_date env history r"
  "time (frame_of env history r) = stored_time env history r"
  by (simp_all add: frame_of_def stored_time_def row.defs frame_row.defs)

lemma today_df_frame:
  "today_df today (map (frame_of env history) history) =
     map (frame_of env history) (filter (\<lambda>r. stored_day env history r = Some today) history)"
  by (simp add: today_df_def filter_map comp_def stored_day_def)

lemma today_total_frame:
  "today_total today (map (frame_of env history) history) =
     int64 (sum_list (map amount (filter (\<lambda>r. stored_day env history r = Some today) history)))"
  by (simp add: today_total_def today_df_frame sint_sum_list comp_def amount_def [abs_def])

lemma get_todays_total_parsed:
  assumes "get_intake env user s = (Inr history, s')"
      and "to_datetime_col (to_datetime env) (map date history) = Inr dates"
  shows "get_todays_total env today user s =
     (int64 (sum_list (map amount (filter (\<lambda>r. stored_day env history r = Some today) history))), s')"
proof -
  have d: "dates = map (stored_date env history) history" using date_col [OF assms(2)] .
  have l: "map (intake_ml \<circ> fst)
          (filter (\<lambda>(r, d). map_option day d = Some today)
             (zip history (map (stored_date env history) history))) =
        map intake_ml (filter (\<lambda>r. stored_day env history r = Some today) history)"
    unfolding stored_day_def
    by (rule filter_zip_map [where P = "\<lambda>d. map_option day d = Some today"])
  have "sint (sum_list (map (intake_ml \<circ> fst)
          (filter (\<lambda>(r, d). map_option day d = Some today)
             (zip history (map (stored_date env history) history))))) =
        int64 (sum_list (map amount (filter (\<lambda>r. stored_day env history r = Some today) history)))"
    unfolding l by (simp add: sint_sum_list comp_def amount_def [abs_def])
  moreover have "int64 0 = 0" by (simp add: int64_def)
  ultimately show ?thesis
    using assms unfolding d by (simp add: get_todays_total_def)
qed

lemma daily_total_of_rows:
  assumes "list_all2 (row_is_event env history) rows events"
  shows "sum_list (map amount (filter (\<lambda>r. stored_day env history r = Some d) rows)) =
           totalMl (daily_total events d)
       \<and> length (filter (\<lambda>r. stored_day env history r = Some d) rows) =
           entryCount (daily_total events d)"
  using assms by (induction rows events rule: list_all2_induct)
    (auto simp: daily_total_def row_is_event_def)


lemma ex_get_intake_store:
  "get_intake ex_env ''user123'' \<lparr>table = ex_history, reachable = True\<rparr> =
     (Inr ex_history, \<lparr>table = ex_history, reachable = True\<rparr>)"
  by (simp add: ex_env_def ex_get_intake_def ex_history_def ex_row_def)

lemma ex_history_dates:
  "to_datetime_col (to_datetime ex_env) (map date ex_history) =
     Inr [Some \<lparr>day = 739012, hour = 0, minute = 0\<rparr>, Some \<lparr>day = 739012, hour = 0, minute = 0\<rparr>]"
  by (simp add: to_datetime_col_def ex_env_def ex_history_def ex_row_def ex_to_datetime_def
      ex_stamps_def)

lemma ex_history_stored_day:
  "map (stored_day ex_env ex_history) ex_history = [Some 739012, Some 739012]"
  by (simp add: stored_day_def stored_date_def ex_env_def ex_history_def ex_row_def
      ex_to_datetime_def ex_stamps_def)

lemma ex_history_df:
  "history_df ex_env ex_history = Inr (map (frame_of ex_env ex_history) ex_history)"
proof -
  have "\<exists>df. history_df ex_env ex_history = Inr df"
    by (simp add: history_df_def to_datetime_col_def ex_env_def ex_history_def ex_row_def
        ex_to_datetime_def ex_stamps_def)
  then show ?thesis using history_df_Inr by blast
qed

text \<open>
  Claim C1, as amended. Today's total is taken over the rows whose stored \<open>date\<close> cell, as
  pandas reads it in the date column, is the target day; the stored \<open>timestamp\<close> is not read
  for it. Their \<open>intake_ml\<close> is summed in signed 64-bit arithmetic: the total is the exact sum
  when that sum fits, and wraps around otherwise. This holds for \<open>get_todays_total\<close> and for
  the main content's \<open>today_total\<close>. When pandas cannot parse the date column,
  \<open>get_todays_total\<close> returns 0. A user without any row gets the total 0 and no error.
  Against the specification's \<open>DailyTotal\<close>: for events that stand for the rows one by one,
  the exact sum is its \<open>totalMl\<close> and the number of rows summed is its \<open>entryCount\<close>, both 0
  for a user without any row.
\<close>

theorem daily_total_by_stored_date:
  assumes "get_intake env user s = (Inr history, s')"
  shows "(\<forall>dates. to_datetime_col (to_datetime env) (map date history) = Inr dates \<longrightarrow>
            get_todays_total env today user s =
              (int64 (sum_list (map amount
                 (filter (\<lambda>r. stored_day env history r = Some today) history))), s')
          \<and> (- (2 ^ 63) \<le> sum_list (map amount
                 (filter (\<lambda>r. stored_day env history r = Some today) history))
             \<and> sum_list (map amount
                 (filter (\<lambda>r. stored_day env history r = Some today) history)) < 2 ^ 63 \<longrightarrow>
               get_todays_total env today user s =
                 (sum_list (map amount
                    (filter (\<lambda>r. stored_day env history r = Some today) history)), s')))
       \<and> (\<forall>e. to_datetime_col (to_datetime env) (map date history) = Inl e \<longrightarrow>
            get_todays_total env today user s = (0, s'))
       \<and> (\<forall>df. history_df env history = Inr df \<longrightarrow>
            today_total today df =
              int64 (sum_list (map amount
                 (filter (\<lambda>r. stored_day env history r = Some today) history)))
          \<and> length (today_df today df) =
              length (filter (\<lambda>r. stored_day env history r = Some today) history))
       \<and> (history = [] \<longrightarrow> get_todays_total env today user s = (0, s'))
       \<and> (\<forall>events. list_all2 (row_is_event env history) history events \<longrightarrow>
            sum_list (map amount (filter (\<lambda>r. stored_day env history r = Some today) history))
              = totalMl (daily_total events today)
          \<and> length (filter (\<lambda>r. stored_day env history r = Some today) history)
              = entryCount (daily_total events today)
          \<and> (history = [] \<longrightarrow>
                totalMl (daily_total events today) = 0 \<and> entryCount (daily_total events today) = 0))"
proof -
  let ?rows = "filter (\<lambda>r. stored_day env history r = Some today) history"
  have 1: "get_todays_total env today user s = (int64 (sum_list (map amount ?rows)), s')"
    if "to_datetime_col (to_datetime env) (map date history) = Inr dates" for dates
    using get_todays_total_parsed [OF assms that] .
  have 2: "get_todays_total env today user s = (sum_list (map amount ?rows), s')"
    if "to_datetime_col (to_datetime env) (map date history) = Inr dates"
      and "- (2 ^ 63) \<le> sum_list (map amount ?rows)" and "sum_list (map amount ?rows) < 2 ^ 63"
    for dates
    using 1 [OF that(1)] int64_id [OF that(2,3)] by simp
  have 3: "get_todays_total env today user s = (0, s')"
    if "to_datetime_col (to_datetime env) (map date history) = Inl e" for e
    using assms that by (simp add: get_todays_total_def)
  have 4: "today_total today df = int64 (sum_list (map amount ?rows))
      \<and> length (today_df today df) = length ?rows"
    if "history_df env history = Inr df" for df
    unfolding history_df_Inr [OF that] today_total_frame by (simp add: today_df_frame)
  have 5: "get_todays_total env today user s = (0, s')" if "history = []"
    using assms that by (simp add: get_todays_total_def)
  have 6: "sum_list (map amount ?rows) = totalMl (daily_total events today)
      \<and> length ?rows = entryCount (daily_total events today)
      \<and> (history = [] \<longrightarrow>
            totalMl (daily_total events today) = 0 \<and> entryCount (daily_total events today) = 0)"
    if "list_all2 (row_is_event env history) history events" for events
  proof -
    have "history = [] \<longrightarrow> events = []" using that by auto
    then show ?thesis
      using daily_total_of_rows [OF that, of today] by (auto simp: daily_total_def)
  qed
  show ?thesis using 1 2 3 4 5 6 by blast
qed

text \<open>
  The two rows of 2024-05-06: 1200 ml over 2 rows on that day, nothing on the day before. A
  date column that does not parse, and a user without rows: 0 both times.
\<close>

theorem daily_total_by_stored_date_witness:
  "get_todays_total ex_env 739012 ''user123'' ex_store = (1200, ex_store)
   \<and> get_todays_total ex_env 739011 ''user123'' ex_store = (0, ex_store)
   \<and> list_all2 (row_is_event ex_env ex_history) ex_history ex_history_events
   \<and> totalMl (daily_total ex_history_events 739012) = 1200
   \<and> entryCount (daily_total ex_history_events 739012) = 2
   \<and> today_total 739012 (map (frame_of ex_env ex_history) ex_history) = 1200
   \<and> to_datetime_col (to_datetime ex_env) (map date ex_mixed) = Inl ValueError
   \<and> get_todays_total ex_env 739012 ''user123'' ex_mixed_store = (0, ex_mixed_store)
   \<and> get_intake ex_env ''nobody'' ex_store = (Inr [], ex_store)
   \<and> get_todays_total ex_env 739012 ''nobody'' ex_store = (0, ex_store)"
proof -
  let ?P = "\<lambda>d r. stored_day ex_env ex_history r = Some d"
  have g: "get_intake ex_env ''user123'' ex_store = (Inr ex_history, ex_store)"
    using ex_get_intake_store by (simp add: ex_store_def)
  have a: "map amount ex_history = [500, 700]"
    by (simp add: amount_def ex_history_def ex_row_def)
  have f1: "filter (?P 739012) ex_history = ex_history"
    using ex_history_stored_day by (simp add: ex_history_def)
  have f0: "filter (?P 739011) ex_history = []"
    using ex_history_stored_day by (simp add: ex_history_def)
  have ev: "list_all2 (row_is_event ex_env ex_history) ex_history ex_history_events"
    using ex_history_stored_day a
    by (simp add: row_is_event_def ex_history_def ex_history_events_def)
  note c = daily_total_by_stored_date [OF g]
  from c [of 739012] ex_history_dates
  have "- (2 ^ 63) \<le> sum_list (map amount (filter (?P 739012) ex_history))
      \<and> sum_list (map amount (filter (?P 739012) ex_history)) < 2 ^ 63 \<longrightarrow>
        get_todays_total ex_env 739012 ''user123'' ex_store =
          (sum_list (map amount (filter (?P 739012) ex_history)), ex_store)"
    by blast
  then have 1: "get_todays_total ex_env 739012 ''user123'' ex_store = (1200, ex_store)"
    unfolding f1 a by simp
  from c [of 739011] ex_history_dates
  have "- (2 ^ 63) \<le> sum_list (map amount (filter (?P 739011) ex_history))
      \<and> sum_list (map amount (filter (?P 739011) ex_history)) < 2 ^ 63 \<longrightarrow>
        get_todays_total ex_env 739011 ''user123'' ex_store =
          (sum_list (map amount (filter (?P 739011) ex_history)), ex_store)"
    by blast
  then have 2: "get_todays_total ex_env 739011 ''user123'' ex_store = (0, ex_store)"
    unfolding f0 by simp
  from c [of 739012] ev
  have "sum_list (map amount (filter (?P 739012) ex_history))
              = totalMl (daily_total ex_history_events 739012)
          \<and> length (filter (?P 739012) ex_history)
              = entryCount (daily_total ex_history_events 739012)"
    by blast
  then have 3: "totalMl (daily_total ex_history_events 739012) = 1200
      \<and> entryCount (daily_total ex_history_events 739012) = 2"
    unfolding f1 a by (simp add: ex_history_def)
  from c [of 739012] ex_history_df
  have "today_total 739012 (map (frame_of ex_env ex_history) ex_history) =
      int64 (sum_list (map amount (filter (?P 739012) ex_history)))"
    by blast
  then have 4: "today_total 739012 (map (frame_of ex_env ex_history) ex_history) = 1200"
    unfolding f1 a by (simp add: int64_def)
  have gm: "get_intake ex_env ''user123'' ex_mixed_store = (Inr ex_mixed, ex_mixed_store)"
    by (simp add: ex_env_def ex_get_intake_def ex_mixed_store_def ex_mixed_def ex_row_def)
  have pm: "to_datetime_col (to_datetime ex_env) (map date ex_mixed) = Inl ValueError"
    by (simp add: to_datetime_col_def ex_env_def ex_mixed_def ex_row_def ex_to_datetime_def
        ex_stamps_def)
  from daily_total_by_stored_date [OF gm, of 739012] pm
  have 5: "get_todays_total ex_env 739012 ''user123'' ex_mixed_store = (0, ex_mixed_store)"
    by blast
  have gn: "get_intake ex_env ''nobody'' ex_store = (Inr [], ex_store)"
    by (simp add: ex_env_def ex_get_intake_def ex_store_def ex_history_def ex_row_def)
  from daily_total_by_stored_date [OF gn, of 739012]
  have 6: "get_todays_total ex_env 739012 ''nobody'' ex_store = (0, ex_store)"
    by blast
  show ?thesis using 1 2 ev 3 4 pm 5 gn 6 by simp
qed

text \<open>
  Claim C1 as stated fails. Two rows of 2 to the 62 ml on one day have the sum 2 to the 63, and
  the total is minus 2 to the 63. Two rows of one day whose date cells differ in format sum
  to 1200 ml, and the total is 0, because the column does not parse.
\<close>

theorem daily_total_wraps_or_is_zero:
  "get_todays_total ex_env 739012 ''user123'' ex_huge_store = (- (2 ^ 63), ex_huge_store)
   \<and> sum_list (map amount ex_huge) = 2 ^ 63
   \<and> get_todays_total ex_env 739012 ''user123'' ex_mixed_store = (0, ex_mixed_store)
   \<and> sum_list (map amount ex_mixed) = 1200"
proof -
  have 1: "get_todays_total ex_env 739012 ''user123'' ex_huge_store = (- (2 ^ 63), ex_huge_store)"
    by (simp add: get_todays_total_def ex_env_def ex_get_intake_def ex_huge_store_def ex_huge_def
        ex_row_def to_datetime_col_def ex_to_datetime_def ex_stamps_def)
  have 2: "sum_list (map amount ex_huge) = 2 ^ 63"
    by (simp add: amount_def ex_huge_def ex_row_def)
  have 3: "get_todays_total ex_env 739012 ''user123'' ex_mixed_store = (0, ex_mixed_store)"
    by (simp add: get_todays_total_def ex_env_def ex_get_intake_def ex_mixed_store_def ex_mixed_def
        ex_row_def to_datetime_col_def ex_to_datetime_def ex_stamps_def)
  have 4: "sum_list (map amount ex_mixed) = 1200"
    by (simp add: amount_def ex_mixed_def ex_row_def)
  show ?thesis using 1 2 3 4 by simp
qed

lemma ex_today_total: "today_total 739012 (map (frame_of ex_env ex_history) ex_history) = 1200"
proof -
  have "filter (\<lambda>r. stored_day ex_env ex_history r = Some 739012) ex_history = ex_history"
    using ex_history_stored_day by (simp add: ex_history_def)
  moreover have "map amount ex_history = [500, 700]"
    by (simp add: amount_def ex_history_def ex_row_def)
  ultimately show ?thesis by (simp add: today_total_frame int64_def)
qed

lemma ex_main_metrics:
  "take 4 (fst (main_content ex_env 739012 ''user123'' ex_store)) =
       [TodaysIntake 1200, Remaining 800, DailyGoal (3 / 5), ProgressBar (3 / 5)]"
proof -
  have g: "get_intake ex_env ''user123'' ex_store = (Inr ex_history, ex_store)"
    using ex_get_intake_store by (simp add: ex_store_def)
  have ne: "ex_history \<noteq> []" by (simp add: ex_history_def)
  show ?thesis
    using g ne ex_history_df ex_today_total
    by (simp add: main_content_def Let_def remaining_def progress_def daily_goal_def int64_def
        split: prod.splits sum.splits)
qed

text \<open>
  Claim C2. Against the fixed goal of 2000 ml, the millilitres remaining are
  \<open>max 0 (2000 - T)\<close>, for every total \<open>T\<close> of 64 bits but the 2001 lowest, where the
  difference itself wraps around; the progress fraction is \<open>min 1 (T / 2000)\<close> for every
  \<open>T\<close>. With 500 ml and 700 ml logged on the same day the total is 1200, and the dashboard
  shows 800 ml remaining and a progress of 3/5.
\<close>

theorem goal_progress_of_total:
  "remaining T = max 0 (int64 (2000 - T))
   \<and> (- (2 ^ 63) + 2000 < T \<and> T < 2 ^ 63 \<longrightarrow> remaining T = max 0 (2000 - T))
   \<and> progress T = min 1 (of_int T / 2000)
   \<and> get_todays_total ex_env 739012 ''user123'' ex_store = (1200, ex_store)
   \<and> take 4 (fst (main_content ex_env 739012 ''user123'' ex_store)) =
       [TodaysIntake 1200, Remaining 800, DailyGoal (3 / 5), ProgressBar (3 / 5)]"
proof -
  have g: "get_intake ex_env ''user123'' ex_store = (Inr ex_history, ex_store)"
    using ex_get_intake_store by (simp add: ex_store_def)
  have f: "filter (\<lambda>r. stored_day ex_env ex_history r = Some 739012) ex_history = ex_history"
    using ex_history_stored_day by (simp add: ex_history_def)
  have a: "map amount ex_history = [500, 700]"
    by (simp add: amount_def ex_history_def ex_row_def)
  have t: "get_todays_total ex_env 739012 ''user123'' ex_store = (1200, ex_store)"
    using get_todays_total_parsed [OF g ex_history_dates, of 739012]
    unfolding f a by (simp add: int64_def)
  have r: "remaining T = max 0 (2000 - T)" if "- (2 ^ 63) + 2000 < T" "T < 2 ^ 63"
  proof -
    have "int64 (2000 - T) = 2000 - T" using that by (intro int64_id) simp_all
    then show ?thesis by (simp add: remaining_def daily_goal_def)
  qed
  show ?thesis using t r ex_main_metrics by (simp add: remaining_def progress_def daily_goal_def)
qed

text \<open>Totals of 1200 ml and of 2500 ml.\<close>

theorem goal_progress_of_total_witness:
  "remaining 1200 = 800 \<and> progress 1200 = 3 / 5 \<and> remaining 2500 = 0 \<and> progress 2500 = 1"
proof -
  have "remaining 1200 = max 0 (2000 - 1200)" using goal_progress_of_total [of 1200] by simp
  moreover have "remaining 2500 = max 0 (2000 - 2500)" using goal_progress_of_total [of 2500] by simp
  moreover have "progress 1200 = min 1 (of_int 1200 / 2000)" using goal_progress_of_total [of 1200] by blast
  moreover have "progress 2500 = min 1 (of_int 2500 / 2000)" using goal_progress_of_total [of 2500] by blast
  ultimately show ?thesis by simp
qed

lemma window_dates_7:
  "window_dates today 7 = [today - 6, today - 5, today - 4, today - 3, today - 2, today - 1, today]"
  by (simp add: window_dates_def upt_rec numeral_nat)

lemma daily_total_empty:
  "\<forall>e\<in>set events. calendarDate e \<noteq> d \<Longrightarrow> daily_total events d = \<lparr>on_date = d, totalMl = 0, entryCount = 0\<rparr>"
proof -
  assume "\<forall>e\<in>set events. calendarDate e \<noteq> d"
  then have "filter (\<lambda>e. calendarDate e = d) events = []" by (induction events) auto
  then show ?thesis by (simp add: daily_total_def)
qed

text \<open>
  Claim C3. With a window of 7 days the summary has exactly 7 entries, for the 7 calendar
  dates that end at today, oldest first, each the daily total of its date; a date without
  events is present with total 0 and count 0.
\<close>

theorem trailing_window_zero_filled:
  assumes "listAll user s = (Inr events, s')"
  shows "trailing_window_summary listAll today user 7 s =
           (Inr (map (daily_total events)
              [today - 6, today - 5, today - 4, today - 3, today - 2, today - 1, today]), s')
         \<and> (\<forall>xs. trailing_window_summary listAll today user 7 s = (Inr xs, s') \<longrightarrow>
               length xs = 7
             \<and> map on_date xs = [today - 6, today - 5, today - 4, today - 3, today - 2, today - 1, today]
             \<and> (\<forall>x\<in>set xs. (\<forall>e\<in>set events. calendarDate e \<noteq> on_date x)
                   \<longrightarrow> totalMl x = 0 \<and> entryCount x = 0))"
proof -
  have 1: "trailing_window_summary listAll today user 7 s =
           (Inr (map (daily_total events)
              [today - 6, today - 5, today - 4, today - 3, today - 2, today - 1, today]), s')"
    using assms by (simp add: trailing_window_summary_def window_dates_7)
  have d: "on_date (daily_total events x) = x" for x by (simp add: daily_total_def)
  have z: "(\<forall>e\<in>set events. calendarDate e \<noteq> x) \<longrightarrow>
      totalMl (daily_total events x) = 0 \<and> entryCount (daily_total events x) = 0" for x
    using daily_total_empty [of events x] by simp
  show ?thesis unfolding 1 using z by (simp add: d)
qed

text \<open>Events on 2024-05-03 and 2024-05-06 only: the other five days are zero entries.\<close>

theorem trailing_window_zero_filled_witness:
  "ex_listAll ''user123'' ex_events = (Inr ex_events, ex_events)
   \<and> trailing_window_summary ex_listAll 739012 ''user123'' 7 ex_events =
       (Inr [\<lparr>on_date = 739006, totalMl = 0, entryCount = 0\<rparr>,
             \<lparr>on_date = 739007, totalMl = 0, entryCount = 0\<rparr>,
             \<lparr>on_date = 739008, totalMl = 0, entryCount = 0\<rparr>,
             \<lparr>on_date = 739009, totalMl = 250, entryCount = 1\<rparr>,
             \<lparr>on_date = 739010, totalMl = 0, entryCount = 0\<rparr>,
             \<lparr>on_date = 739011, totalMl = 0, entryCount = 0\<rparr>,
             \<lparr>on_date = 739012, totalMl = 1200, entryCount = 2\<rparr>], ex_events)"
proof -
  have h: "ex_listAll ''user123'' ex_events = (Inr ex_events, ex_events)"
    by (simp add: ex_listAll_def ex_events_def)
  have "trailing_window_summary ex_listAll 739012 ''user123'' 7 ex_events =
           (Inr (map (daily_total ex_events)
              [739012 - 6, 739012 - 5, 739012 - 4, 739012 - 3, 739012 - 2, 739012 - 1, 739012]), ex_events)"
    using trailing_window_zero_filled [where listAll = ex_listAll and today = 739012, OF h] by blast
  then show ?thesis using h by (simp add: daily_total_def ex_events_def)
qed

section \<open>The pattern series and the recent intakes\<close>

lemma map_of_tabulate:
  "map_of (map (\<lambda>k. (k, f k)) ks) k = (if k \<in> set ks then Some (f k) else None)"
  by (induction ks) auto

lemma set_map_filter: "set (List.map_filter f xs) = {k. \<exists>x\<in>set xs. f x = Some k}"
  by (induction xs) (auto simp: List.map_filter_simps split: option.splits)

lemma map_of_groupby_mean:
  "map_of (groupby_mean key val df) k =
     (if \<exists>r\<in>set df. key r = Some k
      then Some (mean (map val (filter (\<lambda>r. key r = Some k) df))) else None)"
  by (simp add: groupby_mean_def map_of_tabulate set_map_filter)

lemma keys_groupby_mean:
  "map fst (groupby_mean key val df) = sort (remdups (List.map_filter key df))"
  by (simp add: groupby_mean_def comp_def)

lemma map_filter_map: "List.map_filter key (map f xs) = List.map_filter (\<lambda>x. key (f x)) xs"
  by (induction xs) (auto simp: List.map_filter_simps split: option.splits)

lemma map_filter_eq:
  "List.map_filter f xs = map the (filter (\<lambda>y. y \<noteq> None) (map f xs))"
  by (induction xs) (auto simp: List.map_filter_simps split: option.splits)

lemma groupby_mean_map:
  "groupby_mean key val (map f xs) = groupby_mean (\<lambda>x. key (f x)) (\<lambda>x. val (f x)) xs"
  by (simp add: groupby_mean_def filter_map comp_def map_filter_map)

lemma keys_reindex: "map fst (reindex labels series) = labels"
  by (simp add: reindex_def comp_def)

lemma map_of_reindex:
  "map_of (reindex labels series) k = (if k \<in> set labels then Some (map_of series k) else None)"
  by (simp add: reindex_def map_of_tabulate)

lemma day_name_in_day_names: "day_name d \<in> set day_names"
proof -
  have "nat ((d + 6) mod 7) < 7" by simp
  moreover have "length day_names = 7" by (simp add: day_names_def)
  ultimately show ?thesis unfolding day_name_def by (metis nth_mem)
qed

lemma mean_single: "mean [x] = of_int x"
  by (simp add: mean_def)

lemma hourly_pattern_frame:
  "hourly_pattern (map (frame_of env history) history) =
     groupby_mean (stored_hour env history) amount history"
  by (simp add: hourly_pattern_def groupby_mean_map stored_hour_def [abs_def] stored_time_def
      amount_def [abs_def] option.map_comp comp_def)

lemma weekly_pattern_frame:
  "weekly_pattern (map (frame_of env history) history) =
     reindex day_names (groupby_mean (stored_day_name env history) amount history)"
  by (simp add: weekly_pattern_def groupby_mean_map stored_day_name_def [abs_def]
      amount_def [abs_def])

text \<open>
  Claim C4, as amended. The hour-of-day series has one entry for each hour at which the
  history has an event, keyed by the hour of the event's stored timestamp, in ascending order,
  and the entry holds the mean \<open>intake_ml\<close> of that hour's events. An hour without events
  has no entry: the script groups and does not reindex the series over the 24 hours.
\<close>

theorem hourly_pattern_hours_with_events:
  assumes "history_df env history = Inr df"
  shows "map fst (hourly_pattern df) =
           sort (remdups (List.map_filter (stored_hour env history) history))
       \<and> (\<forall>h. map_of (hourly_pattern df) h =
            (if \<exists>r\<in>set history. stored_hour env history r = Some h
             then Some (mean (map amount
                    (filter (\<lambda>r. stored_hour env history r = Some h) history)))
             else None))
       \<and> (\<forall>h. (\<forall>r\<in>set history. stored_hour env history r \<noteq> Some h) \<longrightarrow>
              h \<notin> fst ` set (hourly_pattern df))"
proof -
  have df: "df = map (frame_of env history) history" using history_df_Inr [OF assms] .
  have k: "map fst (hourly_pattern df) =
      sort (remdups (List.map_filter (stored_hour env history) history))"
    unfolding df hourly_pattern_frame by (rule keys_groupby_mean)
  have m: "map_of (hourly_pattern df) h =
            (if \<exists>r\<in>set history. stored_hour env history r = Some h
             then Some (mean (map amount
                    (filter (\<lambda>r. stored_hour env history r = Some h) history)))
             else None)" for h
    unfolding df hourly_pattern_frame by (rule map_of_groupby_mean)
  have "fst ` set (hourly_pattern df) = set (map fst (hourly_pattern df))" by simp
  also have "\<dots> = {h. \<exists>r\<in>set history. stored_hour env history r = Some h}"
    unfolding k by (simp add: set_map_filter)
  finally have o: "fst ` set (hourly_pattern df) =
      {h. \<exists>r\<in>set history. stored_hour env history r = Some h}" .
  show ?thesis using k m o by auto
qed

lemma ex_stored_hours:
  "map (stored_hour ex_env ex_history) ex_history = [Some 8, Some 20]"
  by (simp add: stored_hour_def stored_timestamp_def ex_env_def ex_history_def ex_row_def
      ex_to_datetime_def ex_stamps_def)

text \<open>Events at 08:00 and 20:00: two entries, none for 09:00.\<close>

theorem hourly_pattern_hours_with_events_witness:
  "history_df ex_env ex_history = Inr (map (frame_of ex_env ex_history) ex_history)
   \<and> map fst (hourly_pattern (map (frame_of ex_env ex_history) ex_history)) = [8, 20]
   \<and> map_of (hourly_pattern (map (frame_of ex_env ex_history) ex_history)) 8 = Some 500
   \<and> map_of (hourly_pattern (map (frame_of ex_env ex_history) ex_history)) 9 = None"
proof -
  let ?H = "hourly_pattern (map (frame_of ex_env ex_history) ex_history)"
  define g where "g = stored_hour ex_env ex_history"
  have gm: "map g ex_history = [Some 8, Some 20]" unfolding g_def by (rule ex_stored_hours)
  have s: "g (ex_row 1 500 ''2024-05-06'' ''2024-05-06 08:00:00'') = Some 8"
     "g (ex_row 2 700 ''2024-05-06'' ''2024-05-06 20:00:00'') = Some 20"
    using gm by (simp_all add: ex_history_def)
  note c = hourly_pattern_hours_with_events [OF ex_history_df]
  from c have k: "map fst ?H = sort (remdups (List.map_filter g ex_history))"
    unfolding g_def by blast
  from c have m: "\<forall>h. map_of ?H h =
            (if \<exists>r\<in>set ex_history. g r = Some h
             then Some (mean (map amount (filter (\<lambda>r. g r = Some h) ex_history))) else None)"
    unfolding g_def by blast
  have 1: "map fst ?H = [8, 20]"
    unfolding k by (simp add: map_filter_eq gm)
  have "map_of ?H 8 = (if \<exists>r\<in>set ex_history. g r = Some 8
             then Some (mean (map amount (filter (\<lambda>r. g r = Some 8) ex_history))) else None)"
    using m by blast
  then have 2: "map_of ?H 8 = Some 500"
    by (simp add: ex_history_def s mean_def amount_def) (simp add: ex_row_def)
  have "map_of ?H 9 = (if \<exists>r\<in>set ex_history. g r = Some 9
             then Some (mean (map amount (filter (\<lambda>r. g r = Some 9) ex_history))) else None)"
    using m by blast
  then have 3: "map_of ?H 9 = None"
    by (simp add: ex_history_def s)
  show ?thesis using ex_history_df 1 2 3 by simp
qed

text \<open>
  Claim C4 as stated fails: with events at 08:00 and 20:00 the series has two entries, not 24
  slots.
\<close>

theorem hourly_pattern_omits_empty_hours:
  "\<exists>df. history_df ex_env ex_history = Inr df
       \<and> hourly_pattern df = [(8, 500), (20, 700)]
       \<and> length (hourly_pattern df) \<noteq> 24"
proof -
  define g where "g = stored_hour ex_env ex_history"
  have gm: "map g ex_history = [Some 8, Some 20]" unfolding g_def by (rule ex_stored_hours)
  have s: "g (ex_row 1 500 ''2024-05-06'' ''2024-05-06 08:00:00'') = Some 8"
     "g (ex_row 2 700 ''2024-05-06'' ''2024-05-06 20:00:00'') = Some 20"
    using gm by (simp_all add: ex_history_def)
  have "groupby_mean g amount ex_history = [(8, 500), (20, 700)]"
    unfolding groupby_mean_def map_filter_eq gm
    by (simp add: ex_history_def s mean_def amount_def) (simp add: ex_row_def)
  then have "hourly_pattern (map (frame_of ex_env ex_history) ex_history) = [(8, 500), (20, 700)]"
    unfolding hourly_pattern_frame g_def .
  then show ?thesis using ex_history_df by simp
qed

text \<open>
  Claim C5. The day-of-week series has exactly the 7 slots Monday to Sunday, Monday first.
  Every row of the history whose stored date pandas reads falls into one of them, by the day
  name of that date. A slot whose day has rows holds their mean, a slot whose day has none
  holds no value (NaN, not 0) and is still there, and a slot with a single row of amount \<open>X\<close>
  holds exactly \<open>X\<close>.
\<close>

theorem weekly_pattern_seven_slots:
  assumes "history_df env history = Inr df"
  shows "map fst (weekly_pattern df) =
           [''Monday'', ''Tuesday'', ''Wednesday'', ''Thursday'', ''Friday'', ''Saturday'', ''Sunday'']
       \<and> length (weekly_pattern df) = 7
       \<and> (\<forall>r\<in>set history. \<forall>n. stored_day_name env history r = Some n \<longrightarrow>
              n \<in> fst ` set (weekly_pattern df))
       \<and> (\<forall>n\<in>fst ` set (weekly_pattern df). map_of (weekly_pattern df) n =
            Some (if \<exists>r\<in>set history. stored_day_name env history r = Some n
                  then Some (mean (map amount
                         (filter (\<lambda>r. stored_day_name env history r = Some n) history)))
                  else None))
       \<and> (\<forall>n r. filter (\<lambda>r. stored_day_name env history r = Some n) history = [r] \<longrightarrow>
            map_of (weekly_pattern df) n = Some (Some (of_int (amount r))))"
proof -
  have df: "df = map (frame_of env history) history" using history_df_Inr [OF assms] .
  have k: "map fst (weekly_pattern df) = day_names"
    unfolding df weekly_pattern_frame by (rule keys_reindex)
  have ks: "fst ` set (weekly_pattern df) = set day_names"
    using k by (metis set_map)
  have l: "length (weekly_pattern df) = 7"
    using arg_cong [OF k, of length] by (simp add: day_names_def)
  have a: "\<forall>r\<in>set history. \<forall>n. stored_day_name env history r = Some n \<longrightarrow>
              n \<in> fst ` set (weekly_pattern df)"
    unfolding ks by (auto simp: stored_day_name_def day_name_in_day_names)
  have m: "map_of (weekly_pattern df) n =
            Some (if \<exists>r\<in>set history. stored_day_name env history r = Some n
                  then Some (mean (map amount
                         (filter (\<lambda>r. stored_day_name env history r = Some n) history)))
                  else None)" if "n \<in> set day_names" for n
    unfolding df weekly_pattern_frame map_of_reindex map_of_groupby_mean using that by auto
  have o: "map_of (weekly_pattern df) n = Some (Some (of_int (amount r)))"
    if f: "filter (\<lambda>r. stored_day_name env history r = Some n) history = [r]" for n r
  proof -
    have "r \<in> set (filter (\<lambda>r. stored_day_name env history r = Some n) history)" using f by simp
    then have r: "r \<in> set history" "stored_day_name env history r = Some n" by auto
    then have "n \<in> set day_names" by (auto simp: stored_day_name_def day_name_in_day_names)
    from m [OF this] r show ?thesis by (auto simp: f mean_single)
  qed
  show ?thesis using k l a m o unfolding ks by (simp add: day_names_def)
qed

lemma ex_unordered_df:
  "history_df ex_env ex_unordered = Inr (map (frame_of ex_env ex_unordered) ex_unordered)"
proof -
  have "\<exists>df. history_df ex_env ex_unordered = Inr df"
    by (simp add: history_df_def to_datetime_col_def ex_env_def ex_unordered_def ex_latest_def
        ex_older_def ex_row_def ex_to_datetime_def ex_stamps_def)
  then show ?thesis using history_df_Inr by blast
qed

lemma ex_stored_day_name:
  "map (stored_day_name ex_env ex_unordered) ex_unordered =
     [Some ''Monday'', Some ''Sunday'', Some ''Sunday'', Some ''Sunday'', Some ''Sunday'',
      Some ''Sunday'']"
  by (simp add: stored_day_name_def stored_date_def day_name_def day_names_def ex_env_def
      ex_unordered_def ex_latest_def ex_older_def ex_row_def ex_to_datetime_def ex_stamps_def)

text \<open>One row on a Monday (700 ml), five on a Sunday (mean 300 ml), none on a Tuesday.\<close>

theorem weekly_pattern_seven_slots_witness:
  "history_df ex_env ex_unordered = Inr (map (frame_of ex_env ex_unordered) ex_unordered)
   \<and> map_of (weekly_pattern (map (frame_of ex_env ex_unordered) ex_unordered)) ''Monday''
       = Some (Some 700)
   \<and> map_of (weekly_pattern (map (frame_of ex_env ex_unordered) ex_unordered)) ''Tuesday''
       = Some None
   \<and> map_of (weekly_pattern (map (frame_of ex_env ex_unordered) ex_unordered)) ''Sunday''
       = Some (Some 300)"
proof -
  let ?W = "weekly_pattern (map (frame_of ex_env ex_unordered) ex_unordered)"
  define g where "g = stored_day_name ex_env ex_unordered"
  let ?on = "\<lambda>n. filter (\<lambda>r. g r = Some n) ex_unordered"
  have gm: "map g ex_unordered =
     [Some ''Monday'', Some ''Sunday'', Some ''Sunday'', Some ''Sunday'', Some ''Sunday'',
      Some ''Sunday'']"
    unfolding g_def by (rule ex_stored_day_name)
  have gl: "g ex_latest = Some ''Monday''" using gm by (simp add: ex_unordered_def)
  have go: "map g ex_older =
     [Some ''Sunday'', Some ''Sunday'', Some ''Sunday'', Some ''Sunday'', Some ''Sunday'']"
    using gm by (simp add: ex_unordered_def)
  have on: "?on n = (if n = ''Monday'' then [ex_latest] else []) @ filter (\<lambda>r. g r = Some n) ex_older"
    for n using gl by (auto simp: ex_unordered_def)
  have older: "filter (\<lambda>r. g r = Some n) ex_older = (if n = ''Sunday'' then ex_older else [])" for n
  proof -
    have "\<forall>r\<in>set ex_older. g r = Some ''Sunday''"
      using go by (simp add: ex_older_def)
    then show ?thesis by (auto simp: filter_empty_conv)
  qed
  note c = weekly_pattern_seven_slots [OF ex_unordered_df]
  from c have k: "map fst ?W =
      [''Monday'', ''Tuesday'', ''Wednesday'', ''Thursday'', ''Friday'', ''Saturday'', ''Sunday'']"
    by blast
  have ks: "fst ` set ?W =
      set [''Monday'', ''Tuesday'', ''Wednesday'', ''Thursday'', ''Friday'', ''Saturday'', ''Sunday'']"
    using k by (metis set_map)
  from c have m: "\<forall>n\<in>fst ` set ?W. map_of ?W n =
      Some (if \<exists>r\<in>set ex_unordered. g r = Some n
            then Some (mean (map amount (?on n))) else None)"
    unfolding g_def by blast
  from c have o: "\<forall>n r. ?on n = [r] \<longrightarrow> map_of ?W n = Some (Some (of_int (amount r)))"
    unfolding g_def by blast
  have f: "?on ''Monday'' = [ex_latest]" unfolding on older by simp
  have 1: "map_of ?W ''Monday'' = Some (Some 700)"
    using o f by (simp add: amount_def ex_latest_def ex_row_def)
  have tu: "''Tuesday'' \<in> fst ` set ?W" unfolding ks by simp
  have su: "''Sunday'' \<in> fst ` set ?W" unfolding ks by simp
  have ex: "(\<exists>r\<in>set ex_unordered. g r = Some n) = (?on n \<noteq> [])" for n
    by (simp add: filter_empty_conv)
  have "map_of ?W ''Tuesday'' =
      Some (if \<exists>r\<in>set ex_unordered. g r = Some ''Tuesday''
            then Some (mean (map amount (?on ''Tuesday''))) else None)"
    using m tu by blast
  moreover have "?on ''Tuesday'' = []" unfolding on older by simp
  ultimately have 2: "map_of ?W ''Tuesday'' = Some None" unfolding ex by simp
  have "map_of ?W ''Sunday'' =
      Some (if \<exists>r\<in>set ex_unordered. g r = Some ''Sunday''
            then Some (mean (map amount (?on ''Sunday''))) else None)"
    using m su by blast
  moreover have "?on ''Sunday'' = ex_older" unfolding on older by simp
  moreover have "mean (map amount ex_older) = 300"
    by (simp add: mean_def amount_def ex_older_def ex_row_def)
  moreover have "ex_older \<noteq> []" by (simp add: ex_older_def)
  ultimately have 3: "map_of ?W ''Sunday'' = Some (Some 300)" unfolding ex by simp
  show ?thesis using ex_unordered_df 1 2 3 by simp
qed

lemma recent_intakes_frame:
  "recent_intakes (map (frame_of env history) history) =
     map (\<lambda>r. (stored_time env history r, amount r)) (drop (length history - 5) history)"
  by (simp add: recent_intakes_def tail_def drop_map amount_def)

lemma progress_nonneg: "0 \<le> t \<Longrightarrow> \<not> progress t < 0"
  by (simp add: progress_def daily_goal_def min_def)

lemma progress_neg: "t < 0 \<Longrightarrow> progress t < 0"
  by (simp add: progress_def daily_goal_def min_def)

lemma ex_unordered_times:
  "map (\<lambda>r. (stored_time ex_env ex_unordered r, amount r)) ex_older =
     [(Some (9, 30), 100), (Some (9, 30), 200), (Some (9, 30), 300), (Some (9, 30), 400),
      (Some (9, 30), 500)]"
  by (simp add: stored_time_def stored_timestamp_def amount_def ex_env_def ex_unordered_def
      ex_latest_def ex_older_def ex_row_def ex_to_datetime_def ex_stamps_def)

lemma ex_unordered_days:
  "map (\<lambda>r. map_option day (stored_timestamp ex_env ex_unordered r)) ex_unordered =
     [Some 739012, Some 739011, Some 739011, Some 739011, Some 739011, Some 739011]"
  by (simp add: stored_timestamp_def ex_env_def ex_unordered_def
      ex_latest_def ex_older_def ex_row_def ex_to_datetime_def ex_stamps_def)

lemma ex_unordered_total:
  "today_total 739012 (map (frame_of ex_env ex_unordered) ex_unordered) = 700"
proof -
  have "map (stored_day ex_env ex_unordered) ex_unordered =
      [Some 739012, Some 739011, Some 739011, Some 739011, Some 739011, Some 739011]"
    by (simp add: stored_day_def stored_date_def ex_env_def ex_unordered_def
        ex_latest_def ex_older_def ex_row_def ex_to_datetime_def ex_stamps_def)
  then have "filter (\<lambda>r. stored_day ex_env ex_unordered r = Some 739012) ex_unordered = [ex_latest]"
    by (simp add: ex_unordered_def ex_older_def)
  then show ?thesis
    by (simp add: today_total_frame int64_def amount_def ex_latest_def ex_row_def)
qed

lemma ex_weekly_dates:
  "to_datetime_col (to_datetime ex_env) (map fst [(''2024-05-05'', 300 :: int, 1 :: nat), (''2024-05-06'', 1200, 2)]) =
     Inr [Some \<lparr>day = 739011, hour = 0, minute = 0\<rparr>, Some \<lparr>day = 739012, hour = 0, minute = 0\<rparr>]"
  by (simp add: to_datetime_col_def ex_env_def ex_to_datetime_def ex_stamps_def)

text \<open>
  Claim C10. With at least 5 rows, the Recent Intakes view that the main content draws shows
  the last 5 rows of the sequence the store returned, in that order, by time and amount;
  nothing sorts them. In the example the latest event is the first row of six, and the view
  that the page draws holds the five older rows.
\<close>

theorem recent_intakes_store_order:
  assumes "get_intake env user s = (Inr history, s1)"
      and "history_df env history = Inr df"
      and "5 \<le> length history"
      and "0 \<le> today_total today df"
      and "get_daily_summary env user 7 s1 = (Inr weekly_summary, s2)"
      and "to_datetime_col (to_datetime env) (map fst weekly_summary) = Inr dates"
  shows "fst (main_content env today user s) =
           [TodaysIntake (today_total today df),
            Remaining (remaining (today_total today df)),
            DailyGoal (progress (today_total today df)),
            ProgressBar (progress (today_total today df)),
            WeeklyChart (zip dates (map (fst \<circ> snd) weekly_summary)),
            RecentIntakes
              (map (\<lambda>r. (stored_time env history r, amount r))
                 (drop (length history - 5) history))]
       \<and> recent_intakes df =
           map (\<lambda>r. (stored_time env history r, amount r)) (drop (length history - 5) history)
       \<and> length (recent_intakes df) = 5
       \<and> map (\<lambda>r. map_option day (stored_timestamp ex_env ex_unordered r)) (ex_latest # ex_older) =
           [Some 739012, Some 739011, Some 739011, Some 739011, Some 739011, Some 739011]
       \<and> last (fst (main_content ex_env 739012 ''user123'' ex_unordered_store)) =
           RecentIntakes (map (\<lambda>r. (stored_time ex_env ex_unordered r, amount r)) ex_older)"
proof -
  have df: "df = map (frame_of env history) history" using history_df_Inr [OF assms(2)] .
  have r: "recent_intakes df =
           map (\<lambda>r. (stored_time env history r, amount r)) (drop (length history - 5) history)"
    unfolding df by (rule recent_intakes_frame)
  have ne: "history \<noteq> []" using assms(3) by auto
  have 1: "fst (main_content env today user s) =
           [TodaysIntake (today_total today df),
            Remaining (remaining (today_total today df)),
            DailyGoal (progress (today_total today df)),
            ProgressBar (progress (today_total today df)),
            WeeklyChart (zip dates (map (fst \<circ> snd) weekly_summary)),
            RecentIntakes
              (map (\<lambda>r. (stored_time env history r, amount r))
                 (drop (length history - 5) history))]"
    using assms(1,2,5,6) ne progress_nonneg [OF assms(4)] r
    by (simp add: main_content_def Let_def)
  have 2: "length (recent_intakes df) = 5" unfolding r using assms(3) by simp
  have 3: "map (\<lambda>r. map_option day (stored_timestamp ex_env ex_unordered r)) (ex_latest # ex_older) =
           [Some 739012, Some 739011, Some 739011, Some 739011, Some 739011, Some 739011]"
    using ex_unordered_days by (simp add: ex_unordered_def)
  have g: "get_intake ex_env ''user123'' ex_unordered_store = (Inr ex_unordered, ex_unordered_store)"
    by (simp add: ex_env_def ex_get_intake_def ex_unordered_store_def ex_unordered_def
        ex_latest_def ex_older_def ex_row_def)
  have une: "ex_unordered \<noteq> []" by (simp add: ex_unordered_def)
  have w: "get_daily_summary ex_env ''user123'' 7 ex_unordered_store =
      (Inr [(''2024-05-05'', 300, 1), (''2024-05-06'', 1200, 2)], ex_unordered_store)"
    by (simp add: ex_env_def ex_get_daily_summary_def ex_unordered_store_def)
  have d: "drop (length ex_unordered - 5) ex_unordered = ex_older"
    by (simp add: ex_unordered_def ex_older_def)
  have "\<not> progress (today_total 739012 (map (frame_of ex_env ex_unordered) ex_unordered)) < 0"
    unfolding ex_unordered_total by (rule progress_nonneg) simp
  then have 4: "last (fst (main_content ex_env 739012 ''user123'' ex_unordered_store)) =
           RecentIntakes (map (\<lambda>r. (stored_time ex_env ex_unordered r, amount r)) ex_older)"
    using g une ex_unordered_df w ex_weekly_dates
    by (simp add: main_content_def Let_def recent_intakes_frame d)
  show ?thesis using 1 r 2 3 4 by simp
qed

text \<open>The page for the six rows of the example: the five rows of 09:30 are shown.\<close>

theorem recent_intakes_store_order_witness:
  "fst (main_content ex_env 739012 ''user123'' ex_unordered_store) =
     [TodaysIntake 700, Remaining 1300, DailyGoal (7 / 20), ProgressBar (7 / 20),
      WeeklyChart [(Some \<lparr>day = 739011, hour = 0, minute = 0\<rparr>, 300),
                   (Some \<lparr>day = 739012, hour = 0, minute = 0\<rparr>, 1200)],
      RecentIntakes [(Some (9, 30), 100), (Some (9, 30), 200), (Some (9, 30), 300),
                     (Some (9, 30), 400), (Some (9, 30), 500)]]
   \<and> recent_intakes (map (frame_of ex_env ex_unordered) ex_unordered) =
       [(Some (9, 30), 100), (Some (9, 30), 200), (Some (9, 30), 300), (Some (9, 30), 400),
        (Some (9, 30), 500)]"
proof -
  have g: "get_intake ex_env ''user123'' ex_unordered_store = (Inr ex_unordered, ex_unordered_store)"
    by (simp add: ex_env_def ex_get_intake_def ex_unordered_store_def ex_unordered_def
        ex_latest_def ex_older_def ex_row_def)
  have l: "5 \<le> length ex_unordered" by (simp add: ex_unordered_def ex_older_def)
  have p: "0 \<le> today_total 739012 (map (frame_of ex_env ex_unordered) ex_unordered)"
    by (simp add: ex_unordered_total)
  have w: "get_daily_summary ex_env ''user123'' 7 ex_unordered_store =
      (Inr [(''2024-05-05'', 300, 1), (''2024-05-06'', 1200, 2)], ex_unordered_store)"
    by (simp add: ex_env_def ex_get_daily_summary_def ex_unordered_store_def)
  have d: "drop (length ex_unordered - 5) ex_unordered = ex_older"
    by (simp add: ex_unordered_def ex_older_def)
  note c = recent_intakes_store_order [OF g ex_unordered_df l p w ex_weekly_dates]
  note 1 = c [THEN conjunct1]
  note 2 = c [THEN conjunct2, THEN conjunct1]
  show ?thesis
    unfolding 1 2 d ex_unordered_times ex_unordered_total
    by (simp add: remaining_def progress_def daily_goal_def int64_def)
qed

section \<open>State, errors and the page\<close>

lemma snd_get_todays_total:
  "snd (get_todays_total env today user s) = snd (get_intake env user s)"
  by (simp add: get_todays_total_def split: prod.splits sum.splits)

lemma snd_trailing_window_summary:
  "snd (trailing_window_summary listAll today user n s) = (if n \<le> 0 then s else snd (listAll user s))"
  by (simp add: trailing_window_summary_def split: prod.splits sum.splits)

text \<open>
  Claim C9. When the store's queries leave the store as it is, \<open>get_todays_total\<close> and the
  summary builder do so too, and a second call right after the first returns the same result:
  they add no effect of their own.
\<close>

theorem aggregation_idempotent:
  assumes "\<forall>u s. snd (get_intake env u s) = s" and "\<forall>u st. snd (listAll u st) = st"
  shows "snd (get_todays_total env today user s) = s
       \<and> get_todays_total env today user (snd (get_todays_total env today user s))
           = get_todays_total env today user s
       \<and> snd (trailing_window_summary listAll today user n st) = st
       \<and> trailing_window_summary listAll today user n
             (snd (trailing_window_summary listAll today user n st))
           = trailing_window_summary listAll today user n st"
  using assms by (simp add: snd_get_todays_total snd_trailing_window_summary)

text \<open>The example store and the example events, each queried twice.\<close>

theorem aggregation_idempotent_witness:
  "get_todays_total ex_env 739012 ''user123'' (snd (get_todays_total ex_env 739012 ''user123'' ex_store))
     = (1200, ex_store)
   \<and> get_todays_total ex_env 739012 ''user123'' ex_store = (1200, ex_store)
   \<and> trailing_window_summary ex_listAll 739012 ''user123'' 7
        (snd (trailing_window_summary ex_listAll 739012 ''user123'' 7 ex_events))
     = trailing_window_summary ex_listAll 739012 ''user123'' 7 ex_events
   \<and> snd (trailing_window_summary ex_listAll 739012 ''user123'' 7 ex_events) = ex_events"
proof -
  have q1: "\<forall>u s. snd (get_intake ex_env u s) = s"
    by (simp add: ex_env_def ex_get_intake_def)
  have q2: "\<forall>u s. snd (ex_listAll u s) = s"
    by (simp add: ex_listAll_def)
  have t: "get_todays_total ex_env 739012 ''user123'' ex_store = (1200, ex_store)"
    by (simp add: get_todays_total_def ex_env_def ex_store_def ex_get_intake_def ex_history_def
        ex_row_def to_datetime_col_def ex_to_datetime_def ex_stamps_def)
  note c = aggregation_idempotent [OF q1 q2, where today = 739012 and user = "''user123''" and s = ex_store
      and n = 7 and st = ex_events]
  show ?thesis using c t by simp
qed

lemma get_todays_total_agent_upd:
  "get_todays_total (env\<lparr>new_agent := a\<rparr>) today user s = get_todays_total env today user s"
  by (simp add: get_todays_total_def split: prod.splits sum.splits)

lemma history_df_agent_upd:
  "history_df (env\<lparr>new_agent := a\<rparr>) history = history_df env history"
  by (simp add: history_df_def split: sum.splits)

lemma history_df_summary_upd:
  "history_df (env\<lparr>get_daily_summary := f\<rparr>) history = history_df env history"
  by (simp add: history_df_def split: sum.splits)

lemma main_content_agent_upd:
  "main_content (env\<lparr>new_agent := a\<rparr>) today user s = main_content env today user s"
  by (auto simp: main_content_def history_df_agent_upd Let_def split: prod.splits sum.splits)

text \<open>
  Claim C6, as amended. When \<open>analyze_intake\<close> raises after an intake is logged, the sidebar
  shows the error between the success message and the balloons, and the main content is drawn
  from the store as it then is, exactly as when the analysis returns a text. When the agent
  cannot be constructed, the run stops after showing that error, and draws nothing else.
\<close>

theorem feedback_failure_keeps_main_content:
  assumes "new_agent env = Inr agent"
      and "log_intake env user ml s = (Inr True, s1)"
      and "get_todays_total env today user s1 = (t, s2)"
      and "agent t = Inl e"
  shows "dashboard env today user ml True s =
           (\<lparr>sidebar = [Success, FeedbackError e, Balloons],
             body = fst (main_content env today user s2)\<rparr>,
            snd (main_content env today user s2))
       \<and> (\<forall>feedback.
             dashboard (env\<lparr>new_agent := Inr (\<lambda>t. Inr feedback)\<rparr>) today user ml True s =
               (\<lparr>sidebar = [Success, AIFeedback t feedback, Balloons],
                 body = fst (main_content env today user s2)\<rparr>,
                snd (main_content env today user s2)))
       \<and> (\<forall>e'. dashboard (env\<lparr>new_agent := Inl e'\<rparr>) today user ml True s =
               (\<lparr>sidebar = [], body = [InitError e']\<rparr>, s))"
proof -
  have 1: "dashboard env today user ml True s =
           (\<lparr>sidebar = [Success, FeedbackError e, Balloons],
             body = fst (main_content env today user s2)\<rparr>,
            snd (main_content env today user s2))"
    using assms by (simp add: dashboard_def get_agent_def intake_form_def split: prod.splits)
  have 2: "dashboard (env\<lparr>new_agent := Inr (\<lambda>t. Inr feedback)\<rparr>) today user ml True s =
               (\<lparr>sidebar = [Success, AIFeedback t feedback, Balloons],
                 body = fst (main_content env today user s2)\<rparr>,
                snd (main_content env today user s2))" for feedback
    using assms(2,3)
    by (simp add: dashboard_def get_agent_def intake_form_def get_todays_total_agent_upd
        main_content_agent_upd split: prod.splits)
  have 3: "dashboard (env\<lparr>new_agent := Inl e'\<rparr>) today user ml True s =
               (\<lparr>sidebar = [], body = [InitError e']\<rparr>, s)" for e'
    by (simp add: dashboard_def get_agent_def)
  show ?thesis using 1 2 3 by blast
qed

lemma ex_get_intake_after_log:
  "get_intake ex_env ''user123'' (snd (ex_log_intake ''user123'' 300 ex_store)) =
     (Inr ex_logged, snd (ex_log_intake ''user123'' 300 ex_store))"
  by (simp add: ex_env_def ex_get_intake_def ex_log_intake_def ex_store_def ex_history_def
      ex_row_def ex_logged_def)

lemma ex_logged_df:
  "history_df ex_env ex_logged = Inr (map (frame_of ex_env ex_logged) ex_logged)"
proof -
  have "\<exists>df. history_df ex_env ex_logged = Inr df"
    by (simp add: history_df_def to_datetime_col_def ex_env_def ex_logged_def ex_history_def
        ex_row_def ex_to_datetime_def ex_stamps_def)
  then show ?thesis using history_df_Inr by blast
qed

lemma ex_logged_sum:
  "sum_list (map amount (filter (\<lambda>r. stored_day ex_env ex_logged r = Some 739012) ex_logged)) = 1500"
proof -
  have "map (stored_day ex_env ex_logged) ex_logged = [Some 739012, Some 739012, Some 739012]"
    by (simp add: stored_day_def stored_date_def ex_env_def ex_logged_def ex_history_def
        ex_row_def ex_to_datetime_def ex_stamps_def)
  then have "filter (\<lambda>r. stored_day ex_env ex_logged r = Some 739012) ex_logged = ex_logged"
    by (simp add: ex_logged_def ex_history_def)
  then show ?thesis by (simp add: amount_def ex_logged_def ex_history_def ex_row_def)
qed

lemma ex_total_after_log:
  "get_todays_total ex_env 739012 ''user123'' (snd (ex_log_intake ''user123'' 300 ex_store)) =
     (1500, snd (ex_log_intake ''user123'' 300 ex_store))"
proof -
  obtain dates where "to_datetime_col (to_datetime ex_env) (map date ex_logged) = Inr dates"
    using history_df_date_col [OF ex_logged_df] by blast
  from get_todays_total_parsed [OF ex_get_intake_after_log this, of 739012]
  show ?thesis unfolding ex_logged_sum by (simp add: int64_def)
qed

lemma ex_main_after_log:
  "take 4 (fst (main_content ex_env 739012 ''user123'' (snd (ex_log_intake ''user123'' 300 ex_store)))) =
     [TodaysIntake 1500, Remaining 500, DailyGoal (3 / 4), ProgressBar (3 / 4)]"
proof -
  have tt: "today_total 739012 (map (frame_of ex_env ex_logged) ex_logged) = 1500"
    unfolding today_total_frame ex_logged_sum by (simp add: int64_def)
  have ne: "ex_logged \<noteq> []" by (simp add: ex_logged_def)
  show ?thesis
    using ex_get_intake_after_log ex_logged_df tt ne
    by (simp add: main_content_def Let_def remaining_def progress_def daily_goal_def int64_def
        split: prod.splits sum.splits)
qed

text \<open>Logging 300 ml with an agent that raises: the error is shown, and so is the total of 1500 ml.\<close>

theorem feedback_failure_keeps_main_content_witness:
  "sidebar (fst (dashboard (ex_env\<lparr>new_agent := Inr ex_failing_agent\<rparr>) 739012 ''user123'' 300 True ex_store))
     = [Success, FeedbackError AgentError, Balloons]
   \<and> take 4 (body (fst (dashboard (ex_env\<lparr>new_agent := Inr ex_failing_agent\<rparr>) 739012 ''user123'' 300 True ex_store)))
     = [TodaysIntake 1500, Remaining 500, DailyGoal (3 / 4), ProgressBar (3 / 4)]"
proof -
  let ?env = "ex_env\<lparr>new_agent := Inr ex_failing_agent\<rparr>"
  let ?s1 = "snd (ex_log_intake ''user123'' 300 ex_store)"
  have a: "new_agent ?env = Inr ex_failing_agent" by simp
  have l: "log_intake ?env ''user123'' 300 ex_store = (Inr True, ?s1)"
    by (simp add: ex_env_def ex_log_intake_def ex_store_def)
  have t: "get_todays_total ?env 739012 ''user123'' ?s1 = (1500, ?s1)"
    by (simp add: get_todays_total_agent_upd ex_total_after_log)
  have f: "ex_failing_agent 1500 = Inl AgentError" by (simp add: ex_failing_agent_def)
  from feedback_failure_keeps_main_content [OF a l t f]
  have "dashboard ?env 739012 ''user123'' 300 True ex_store =
           (\<lparr>sidebar = [Success, FeedbackError AgentError, Balloons],
             body = fst (main_content ?env 739012 ''user123'' ?s1)\<rparr>,
            snd (main_content ?env 739012 ''user123'' ?s1))"
    by blast
  then show ?thesis by (simp add: main_content_agent_upd ex_main_after_log)
qed

text \<open>
  Claim C6 as stated fails: when constructing the agent raises, the page shows that error
  only, while with an agent the same store gives a page that starts with the total of 1200 ml.
\<close>

theorem agent_construction_failure_stops_page:
  "dashboard (ex_env\<lparr>new_agent := Inl AgentError\<rparr>) 739012 ''user123'' 300 False ex_store
     = (\<lparr>sidebar = [], body = [InitError AgentError]\<rparr>, ex_store)
   \<and> take 1 (body (fst (dashboard ex_env 739012 ''user123'' 300 False ex_store)))
     = [TodaysIntake 1200]"
proof -
  have "take 1 (take 4 (fst (main_content ex_env 739012 ''user123'' ex_store))) = [TodaysIntake 1200]"
    unfolding ex_main_metrics by simp
  then have m: "take 1 (fst (main_content ex_env 739012 ''user123'' ex_store)) = [TodaysIntake 1200]"
    by simp
  have a: "new_agent ex_env = Inr ex_agent" by (simp add: ex_env_def)
  have 1: "dashboard (ex_env\<lparr>new_agent := Inl AgentError\<rparr>) 739012 ''user123'' 300 False ex_store
     = (\<lparr>sidebar = [], body = [InitError AgentError]\<rparr>, ex_store)"
    by (simp add: dashboard_def get_agent_def)
  have 2: "take 1 (body (fst (dashboard ex_env 739012 ''user123'' 300 False ex_store)))
     = [TodaysIntake 1200]"
    using a m by (auto simp: dashboard_def get_agent_def split: prod.splits)
  show ?thesis using 1 2 by simp
qed

text \<open>
  Claim C7, as amended. A failure of \<open>get_intake\<close> or of \<open>get_daily_summary\<close> in the main
  content, and a failure of \<open>log_intake\<close> in the form, is caught at the page and shown with
  the error itself; the store is left as the one failing call left it, so the call is not
  repeated. (With a negative total the page ends at the progress bar, before the summary is
  asked for.) \<open>get_todays_total\<close>, however, catches the failure of \<open>get_intake\<close> and
  returns 0.
\<close>

theorem store_failures_at_the_page:
  "(get_intake env user s = (Inl e, s1) \<longrightarrow>
      main_content env today user s = ([LoadError e], s1)
    \<and> get_todays_total env today user s = (0, s1))
   \<and> (log_intake env user ml s = (Inl e, s1) \<longrightarrow>
        intake_form env agent today user ml s = ([FormError e], s1))
   \<and> (get_intake env user s = (Inr history, s1) \<and> history \<noteq> []
        \<and> history_df env history = Inr df \<and> get_daily_summary env user 7 s1 = (Inl e, s2) \<longrightarrow>
        main_content env today user s =
          (if 0 \<le> today_total today df
           then ([TodaysIntake (today_total today df),
                  Remaining (remaining (today_total today df)),
                  DailyGoal (progress (today_total today df)),
                  ProgressBar (progress (today_total today df)),
                  LoadError e], s2)
           else ([TodaysIntake (today_total today df),
                  Remaining (remaining (today_total today df)),
                  DailyGoal (progress (today_total today df)),
                  LoadError StreamlitAPIException], s1)))"
proof -
  have p: "(progress t < 0) = (\<not> 0 \<le> t)" for t
    using progress_nonneg [of t] progress_neg [of t] by auto
  show ?thesis
    by (simp add: main_content_def get_todays_total_def intake_form_def Let_def p)
qed

text \<open>
  Claim C7 as stated fails: with the store unreachable \<open>get_todays_total\<close> returns 0, and
  when only the query fails after a successful log, the feedback box reports a total of 0 ml.
\<close>

theorem get_todays_total_swallows_store_failure:
  "get_intake ex_env ''user123'' ex_offline = (Inl PersistenceError, ex_offline)
   \<and> get_todays_total ex_env 739012 ''user123'' ex_offline = (0, ex_offline)
   \<and> dashboard (ex_env\<lparr>get_intake := (\<lambda>u s. (Inl PersistenceError, s))\<rparr>)
         739012 ''user123'' 300 True ex_store
     = (\<lparr>sidebar = [Success, AIFeedback 0 ''Drink more water.'', Balloons],
         body = [LoadError PersistenceError]\<rparr>, snd (ex_log_intake ''user123'' 300 ex_store))"
  by (simp add: get_todays_total_def dashboard_def get_agent_def intake_form_def main_content_def
      ex_env_def ex_get_intake_def ex_offline_def ex_log_intake_def ex_store_def ex_agent_def)

text \<open>The unreachable store, and the example store with a summary query that fails.\<close>

theorem store_failures_at_the_page_witness:
  "main_content ex_env 739012 ''user123'' ex_offline = ([LoadError PersistenceError], ex_offline)
   \<and> intake_form ex_env ex_agent 739012 ''user123'' 300 ex_offline
        = ([FormError PersistenceError], ex_offline)
   \<and> main_content (ex_env\<lparr>get_daily_summary := (\<lambda>u n s. (Inl PersistenceError, s))\<rparr>)
        739012 ''user123'' ex_store
        = ([TodaysIntake 1200, Remaining 800, DailyGoal (3 / 5), ProgressBar (3 / 5),
            LoadError PersistenceError], ex_store)"
proof -
  let ?env = "ex_env\<lparr>get_daily_summary := (\<lambda>u n s. (Inl PersistenceError, s))\<rparr>"
  have g: "get_intake ex_env ''user123'' ex_offline = (Inl PersistenceError, ex_offline)"
    by (simp add: ex_env_def ex_get_intake_def ex_offline_def)
  have l: "log_intake ex_env ''user123'' 300 ex_offline = (Inl PersistenceError, ex_offline)"
    by (simp add: ex_env_def ex_log_intake_def ex_offline_def)
  have g2: "get_intake ?env ''user123'' ex_store = (Inr ex_history, ex_store)"
    using ex_get_intake_store by (simp add: ex_store_def ex_env_def)
  have ne: "ex_history \<noteq> []" by (simp add: ex_history_def)
  have d: "history_df ?env ex_history = Inr (map (frame_of ex_env ex_history) ex_history)"
    by (simp add: history_df_summary_upd ex_history_df)
  have f: "get_daily_summary ?env ''user123'' 7 ex_store = (Inl PersistenceError, ex_store)"
    by simp
  from store_failures_at_the_page [where env = ex_env and user = "''user123''" and s = ex_offline and today = 739012
      and ?s1.0 = ex_offline and e = PersistenceError and ml = 300 and agent = ex_agent] g l
  have 1: "main_content ex_env 739012 ''user123'' ex_offline = ([LoadError PersistenceError], ex_offline)"
    and 2: "intake_form ex_env ex_agent 739012 ''user123'' 300 ex_offline
        = ([FormError PersistenceError], ex_offline)"
    by simp_all
  from store_failures_at_the_page [where env = ?env and user = "''user123''" and s = ex_store and today = 739012
      and ?s1.0 = ex_store and ?s2.0 = ex_store and e = PersistenceError and history = ex_history
      and df = "map (frame_of ex_env ex_history) ex_history"] g2 ne d f
  have 3: "main_content ?env 739012 ''user123'' ex_store
        = ([TodaysIntake 1200, Remaining 800, DailyGoal (3 / 5), ProgressBar (3 / 5),
            LoadError PersistenceError], ex_store)"
    by (simp add: ex_today_total remaining_def progress_def daily_goal_def int64_def)
  show ?thesis using 1 2 3 by simp
qed

end
